theory Spec2Isabelle
  imports Complex_Main
begin

section \<open>Exceptions\<close>

text \<open>
  The Python exceptions that the modelled functions can raise.  A function that can
  raise returns \<open>py_error + 'a\<close>, with \<open>Inl\<close> for the exception.
\<close>

datatype py_error =
    ZeroDivisionError
  | ValueError
  | NameError
  | IndexError
  | OtherError

section \<open>The .632+ estimator (backend/utils.py)\<close>

text \<open>
  Scores are Python floats, IEEE doubles.  Two models are used.

  The function \<open>point632plus\<close>, whose value at infinite and at very large arguments
  matters below, is modelled on the type \<open>pyfloat\<close>: a finite value, one of the two
  infinities, or not-a-number.  The arithmetic is that of IEEE except that a finite
  result in range is kept as the real number it is: rounding, underflow and the sign
  of zero are left out, overflow to an infinity and the not-a-number cases are kept.

  Everywhere else a score is a real number, which stands for a finite double whose
  arithmetic stays in range; lemma \<open>point632plus_real_agrees\<close> states when the two
  models of \<open>point632plus\<close> coincide.  The one not-a-number that the code itself can
  produce from finite data, the mean of an empty array in \<open>no_info_rate\<close>, is kept
  there too: it is the value \<open>None\<close> of \<open>no_info_rate\<close> below.
\<close>

subsection \<open>Floats with infinities and not-a-number\<close>

datatype pyfloat = Fin real | PInf | NInf | NaN

text \<open>
  An exact result of magnitude \<open>2 ^ 1024 - 2 ^ 970\<close> or more (the largest double plus
  half the distance to its predecessor) becomes an infinity.
\<close>

definition overflow_threshold :: real where
  "overflow_threshold = 2 ^ 1024 - 2 ^ 970"

definition in_range :: "real \<Rightarrow> bool" where
  "in_range x \<longleftrightarrow> \<bar>x\<bar> < overflow_threshold"

definition fl :: "real \<Rightarrow> pyfloat" where
  "fl x = (if overflow_threshold \<le> x then PInf
           else if x \<le> - overflow_threshold then NInf
           else Fin x)"

fun fneg :: "pyfloat \<Rightarrow> pyfloat" where
  "fneg (Fin a) = Fin (- a)"
| "fneg PInf = NInf"
| "fneg NInf = PInf"
| "fneg NaN = NaN"

fun fadd :: "pyfloat \<Rightarrow> pyfloat \<Rightarrow> pyfloat" where
  "fadd (Fin a) (Fin b) = fl (a + b)"
| "fadd (Fin a) PInf = PInf"
| "fadd (Fin a) NInf = NInf"
| "fadd PInf (Fin b) = PInf"
| "fadd PInf PInf = PInf"
| "fadd NInf (Fin b) = NInf"
| "fadd NInf NInf = NInf"
| "fadd x y = NaN"

definition fsub :: "pyfloat \<Rightarrow> pyfloat \<Rightarrow> pyfloat" where
  "fsub x y = fadd x (fneg y)"

text \<open>The product of an infinity and a non-zero value, by the sign of that value.\<close>

definition signed_inf :: "pyfloat \<Rightarrow> real \<Rightarrow> pyfloat" where
  "signed_inf i a = (if a = 0 then NaN else if 0 < a then i else fneg i)"

fun fmul :: "pyfloat \<Rightarrow> pyfloat \<Rightarrow> pyfloat" where
  "fmul (Fin a) (Fin b) = fl (a * b)"
| "fmul (Fin a) PInf = signed_inf PInf a"
| "fmul (Fin a) NInf = signed_inf NInf a"
| "fmul PInf (Fin b) = signed_inf PInf b"
| "fmul NInf (Fin b) = signed_inf NInf b"
| "fmul PInf PInf = PInf"
| "fmul PInf NInf = NInf"
| "fmul NInf PInf = NInf"
| "fmul NInf NInf = PInf"
| "fmul x y = NaN"

text \<open>
  Division of floats in Python, and in a function compiled by numba with its default
  error model: a zero divisor raises, whatever the dividend.
\<close>

fun fdiv :: "pyfloat \<Rightarrow> pyfloat \<Rightarrow> py_error + pyfloat" where
  "fdiv x (Fin b) =
     (if b = 0 then Inl ZeroDivisionError
      else case x of
             Fin a \<Rightarrow> Inr (fl (a / b))
           | PInf \<Rightarrow> Inr (signed_inf PInf b)
           | NInf \<Rightarrow> Inr (signed_inf NInf b)
           | NaN \<Rightarrow> Inr NaN)"
| "fdiv (Fin a) PInf = Inr (Fin 0)"
| "fdiv (Fin a) NInf = Inr (Fin 0)"
| "fdiv x y = Inr NaN"

subsection \<open>The functions\<close>

text \<open>
  \<^verbatim>\<open>
  def point632plus(train_score, test_score, r_marked, test_score_marked):
      point632 = 0.368 * train_score + 0.632 * test_score
      frac = (0.368 * 0.632 * r_marked) / (1 - 0.368 * r_marked)
      return point632 + (test_score_marked - train_score) * frac
  \<close>
\<close>

definition point632plus ::
  "pyfloat \<Rightarrow> pyfloat \<Rightarrow> pyfloat \<Rightarrow> pyfloat \<Rightarrow> py_error + pyfloat" where
  "point632plus train_score test_score r_marked test_score_marked =
     (let point632 = fadd (fmul (Fin 0.368) train_score) (fmul (Fin 0.632) test_score)
      in case fdiv (fmul (fmul (Fin 0.368) (Fin 0.632)) r_marked)
                   (fsub (Fin 1) (fmul (Fin 0.368) r_marked)) of
           Inl e \<Rightarrow> Inl e
         | Inr frac_val \<Rightarrow>
             Inr (fadd point632 (fmul (fsub test_score_marked train_score) frac_val)))"

text \<open>Float division \<open>a / b\<close> of two finite values in range, which raises on a zero divisor.\<close>

definition py_truediv :: "real \<Rightarrow> real \<Rightarrow> py_error + real" where
  "py_truediv a b = (if b = 0 then Inl ZeroDivisionError else Inr (a / b))"

text \<open>The same function on finite values whose arithmetic stays in range.\<close>

definition point632plus_real :: "real \<Rightarrow> real \<Rightarrow> real \<Rightarrow> real \<Rightarrow> py_error + real" where
  "point632plus_real train_score test_score r_marked test_score_marked =
     (let point632 = 0.368 * train_score + 0.632 * test_score
      in case py_truediv (0.368 * 0.632 * r_marked) (1 - 0.368 * r_marked) of
           Inl e \<Rightarrow> Inl e
         | Inr frac_val \<Rightarrow> Inr (point632 + (test_score_marked - train_score) * frac_val))"

text \<open>
  The values that \<open>point632plus\<close> computes on its way, for finite arguments: when all of
  them are in range the two models agree.
\<close>

definition intermediates_in_range :: "real \<Rightarrow> real \<Rightarrow> real \<Rightarrow> real \<Rightarrow> bool" where
  "intermediates_in_range train_score test_score r_marked test_score_marked \<longleftrightarrow>
     in_range (0.368 * train_score) \<and> in_range (0.632 * test_score)
   \<and> in_range (0.368 * train_score + 0.632 * test_score)
   \<and> in_range (0.368 * 0.632 * r_marked) \<and> in_range (0.368 * r_marked)
   \<and> in_range (1 - 0.368 * r_marked)
   \<and> in_range (0.368 * 0.632 * r_marked / (1 - 0.368 * r_marked))
   \<and> in_range (test_score_marked - train_score)
   \<and> in_range ((test_score_marked - train_score)
                 * (0.368 * 0.632 * r_marked / (1 - 0.368 * r_marked)))
   \<and> in_range (0.368 * train_score + 0.632 * test_score
                 + (test_score_marked - train_score)
                   * (0.368 * 0.632 * r_marked / (1 - 0.368 * r_marked)))"

text \<open>
  \<^verbatim>\<open>
  def relative_overfit_rate(train_score, test_score, gamma):
      if test_score > train_score and gamma > train_score:
          return (test_score - train_score) / (gamma - train_score)
      else:
          return 0
  \<close>
\<close>

definition relative_overfit_rate :: "real \<Rightarrow> real \<Rightarrow> real \<Rightarrow> py_error + real" where
  "relative_overfit_rate train_score test_score gamma =
     (if test_score > train_score \<and> gamma > train_score
      then py_truediv (test_score - train_score) (gamma - train_score)
      else Inr 0)"

text \<open>
  \<open>np.sum(y) / np.size(y)\<close>.  numpy does not raise on an empty array: the quotient
  \<open>0 / 0\<close> is not-a-number (with a warning), here \<open>None\<close>.
\<close>

definition np_mean :: "real list \<Rightarrow> real option" where
  "np_mean y = (if length y = 0 then None else Some (sum_list y / real (length y)))"

text \<open>
  \<^verbatim>\<open>
  def no_info_rate(y_true, y_pred):
      p_one = np.sum(y_true) / np.size(y_true)
      q_one = np.sum(y_pred) / np.size(y_pred)
      return p_one * (1 - q_one) + (1 - p_one) * q_one
  \<close>
  Arithmetic with a not-a-number operand gives not-a-number.
\<close>

definition no_info_rate :: "real list \<Rightarrow> real list \<Rightarrow> real option" where
  "no_info_rate y_true y_pred =
     (case (np_mean y_true, np_mean y_pred) of
        (Some p_one, Some q_one) \<Rightarrow> Some (p_one * (1 - q_one) + (1 - p_one) * q_one)
      | _ \<Rightarrow> None)"

text \<open>
  \<^verbatim>\<open>
  def point632plus_score(y_true, y_pred, train_score, test_score):
      gamma = no_info_rate(y_true, y_pred)
      test_score_marked = min(test_score, gamma)
      r_marked = relative_overfit_rate(train_score, test_score, gamma)
      return point632plus(train_score, test_score, r_marked, test_score_marked)
  \<close>
  Python's \<open>min(a, b)\<close> is \<open>b\<close> if \<open>b < a\<close> and \<open>a\<close> otherwise, and every comparison with
  a not-a-number is false: with \<open>gamma\<close> not-a-number, \<open>test_score_marked\<close> is
  \<open>test_score\<close> and \<open>relative_overfit_rate\<close> takes its \<open>else\<close> branch.
  The scores here are finite values in range, so \<open>point632plus\<close> is taken in its
  model on the reals.
\<close>

definition py_min :: "real \<Rightarrow> real \<Rightarrow> real" where
  "py_min a b = (if b < a then b else a)"

definition point632plus_gamma :: "real option \<Rightarrow> real \<Rightarrow> real \<Rightarrow> py_error + real" where
  "point632plus_gamma gamma train_score test_score =
     (case gamma of
        None \<Rightarrow> point632plus_real train_score test_score 0 test_score
      | Some g \<Rightarrow>
          (case relative_overfit_rate train_score test_score g of
             Inl e \<Rightarrow> Inl e
           | Inr r_marked \<Rightarrow>
               point632plus_real train_score test_score r_marked (py_min test_score g)))"

definition point632plus_score ::
  "real list \<Rightarrow> real list \<Rightarrow> real \<Rightarrow> real \<Rightarrow> py_error + real" where
  "point632plus_score y_true y_pred train_score test_score =
     point632plus_gamma (no_info_rate y_true y_pred) train_score test_score"

section \<open>Standardise, fit, predict and score (backend/utils.py)\<close>

text \<open>
  The feature matrices, the scaler and the model are objects of scikit-learn and of the
  caller.  Their types are left open (\<open>'x\<close> a feature matrix, \<open>'sc\<close> a fitted scaler,
  \<open>'m\<close> a model), and their methods are fields of a record of functions; every method
  can raise.  \<open>m_fit\<close> returns the fitted model, which the later \<open>m_predict\<close> calls use.
\<close>

record ('x, 'sc) scaler_ops =
  sc_fit_transform :: "'x \<Rightarrow> py_error + ('x \<times> 'sc)"
  sc_transform :: "'sc \<Rightarrow> 'x \<Rightarrow> py_error + 'x"

record ('x, 'm) model_ops =
  m_fit :: "'m \<Rightarrow> 'x \<Rightarrow> real list \<Rightarrow> py_error + 'm"
  m_predict :: "'m \<Rightarrow> 'x \<Rightarrow> py_error + real list"

text \<open>Sequencing of statements that can raise: the first exception ends the block.\<close>

definition and_then :: "py_error + 'a \<Rightarrow> ('a \<Rightarrow> py_error + 'b) \<Rightarrow> py_error + 'b" where
  "and_then m f = (case m of Inl e \<Rightarrow> Inl e | Inr x \<Rightarrow> f x)"

text \<open>
  \<^verbatim>\<open>
  def train_test_z_scores(X_train, X_test):
      scaler = StandardScaler()
      X_train_std = scaler.fit_transform(X_train)
      X_test_std = scaler.transform(X_test)
      return X_train_std, X_test_std
  \<close>
\<close>

definition train_test_z_scores ::
  "('x, 'sc) scaler_ops \<Rightarrow> 'x \<Rightarrow> 'x \<Rightarrow> py_error + ('x \<times> 'x)" where
  "train_test_z_scores sc X_train X_test =
     and_then (sc_fit_transform sc X_train) (\<lambda>(X_train_std, scaler).
     and_then (sc_transform sc scaler X_test) (\<lambda>X_test_std.
     Inr (X_train_std, X_test_std)))"

text \<open>
  The body of the \<open>try\<close> block of \<open>scale_fit_predict632\<close>:
  \<^verbatim>\<open>
      X_train_std, X_test_std = train_test_z_scores(X_train, X_test)
      model.fit(X_train_std, y_train)
      y_train_pred = model.predict(X_train_std)
      train_score = score_func(y_train, y_train_pred)
      y_test_pred = model.predict(X_test_std)
      test_score = score_func(y_test, y_test_pred)
      train_632_score = point632plus_score(
          y_train, y_train_pred, train_score, test_score)
      test_632_score = point632plus_score(
          y_test, y_test_pred, train_score, test_score)
      return train_632_score, test_632_score
  \<close>
\<close>

definition scale_fit_predict632_try ::
  "('x, 'sc) scaler_ops \<Rightarrow> ('x, 'm) model_ops
   \<Rightarrow> (real list \<Rightarrow> real list \<Rightarrow> py_error + real)
   \<Rightarrow> 'm \<Rightarrow> 'x \<Rightarrow> 'x \<Rightarrow> real list \<Rightarrow> real list \<Rightarrow> py_error + (real \<times> real)" where
  "scale_fit_predict632_try sc ops score_func model X_train X_test y_train y_test =
     and_then (train_test_z_scores sc X_train X_test) (\<lambda>(X_train_std, X_test_std).
     and_then (m_fit ops model X_train_std y_train) (\<lambda>fitted.
     and_then (m_predict ops fitted X_train_std) (\<lambda>y_train_pred.
     and_then (score_func y_train y_train_pred) (\<lambda>train_score.
     and_then (m_predict ops fitted X_test_std) (\<lambda>y_test_pred.
     and_then (score_func y_test y_test_pred) (\<lambda>test_score.
     and_then (point632plus_score y_train y_train_pred train_score test_score)
       (\<lambda>train_632_score.
     and_then (point632plus_score y_test y_test_pred train_score test_score)
       (\<lambda>test_632_score.
     Inr (train_632_score, test_632_score)))))))))"

text \<open>
  \<^verbatim>\<open>
  def scale_fit_predict632(model, X_train, X_test, y_train, y_test, score_func):
      try:
          ...
          return train_632_score, test_632_score
      except:
          return None, None
  \<close>
  The bare \<open>except:\<close> catches every exception, so the result has no error case.
\<close>

definition scale_fit_predict632 ::
  "('x, 'sc) scaler_ops \<Rightarrow> ('x, 'm) model_ops
   \<Rightarrow> (real list \<Rightarrow> real list \<Rightarrow> py_error + real)
   \<Rightarrow> 'm \<Rightarrow> 'x \<Rightarrow> 'x \<Rightarrow> real list \<Rightarrow> real list \<Rightarrow> real option \<times> real option" where
  "scale_fit_predict632 sc ops score_func model X_train X_test y_train y_test =
     (case scale_fit_predict632_try sc ops score_func model X_train X_test y_train y_test of
        Inl e \<Rightarrow> (None, None)
      | Inr (train_632_score, test_632_score) \<Rightarrow> (Some train_632_score, Some test_632_score))"

text \<open>
  A small scaler, model and score function on which the definitions can be run: one
  feature per sample, the scaler subtracts the training mean, the model is a threshold
  (fitting keeps it and rejects an empty training set), the score is the fraction of
  wrong predictions.
\<close>

definition centre_scaler :: "(real list, real) scaler_ops" where
  "centre_scaler =
     \<lparr> sc_fit_transform = (\<lambda>X. case np_mean X of
                                  None \<Rightarrow> Inl ValueError
                                | Some mu \<Rightarrow> Inr (map (\<lambda>x. x - mu) X, mu)),
       sc_transform = (\<lambda>mu X. Inr (map (\<lambda>x. x - mu) X)) \<rparr>"

definition threshold_model :: "(real list, real) model_ops" where
  "threshold_model =
     \<lparr> m_fit = (\<lambda>t X y. if length X \<noteq> length y then Inl ValueError else Inr t),
       m_predict = (\<lambda>t X. Inr (map (\<lambda>x. if t < x then 1 else 0) X)) \<rparr>"

definition error_rate :: "real list \<Rightarrow> real list \<Rightarrow> py_error + real" where
  "error_rate y_true y_pred =
     (if length y_true \<noteq> length y_pred then Inl ValueError
      else py_truediv (real (length (filter (\<lambda>(a, b). a \<noteq> b) (zip y_true y_pred))))
                      (real (length y_true)))"

section \<open>Feature indicator formatting (backend/utils.py)\<close>

text \<open>
  A numpy array is its shape and its entries in row-major order; the entries of a
  feature indicator are integers.  The argument of \<open>check_support\<close> is either a numpy
  array or some other array-like object (a list, a tuple, a number), which is
  represented by the array that numpy makes of it.
\<close>

datatype ndarray = NdArray (shape: "nat list") (entries: "int list")

datatype array_like = Array ndarray | NotArray ndarray

fun as_array :: "array_like \<Rightarrow> ndarray" where
  "as_array (Array a) = a"
| "as_array (NotArray a) = a"

fun is_ndarray :: "array_like \<Rightarrow> bool" where
  "is_ndarray (Array a) = True"
| "is_ndarray (NotArray a) = False"

definition np_ndim :: "array_like \<Rightarrow> nat" where
  "np_ndim s = length (shape (as_array s))"

text \<open>\<open>np.squeeze\<close> drops the axes of length one and keeps the entries.\<close>

definition np_squeeze :: "ndarray \<Rightarrow> ndarray" where
  "np_squeeze a = NdArray (filter (\<lambda>d. d \<noteq> 1) (shape a)) (entries a)"

text \<open>\<open>np.array(support, dtype=int)\<close>: a new integer array of the same shape and entries.\<close>

definition np_array_int :: "ndarray \<Rightarrow> ndarray" where
  "np_array_int a = NdArray (shape a) (entries a)"

text \<open>
  \<^verbatim>\<open>
  def check_support(support):
      if np.ndim(support) > 1:
          return np.squeeze(support)
      if not isinstance(support, np.ndarray):
          return np.array(support, dtype=int)
  \<close>
  A Python function that reaches its end without \<open>return\<close> returns \<open>None\<close>.
\<close>

definition check_support :: "array_like \<Rightarrow> ndarray option" where
  "check_support support =
     (if np_ndim support > 1 then Some (np_squeeze (as_array support))
      else if \<not> is_ndarray support then Some (np_array_int (as_array support))
      else None)"

section \<open>Random generators\<close>

text \<open>
  \<open>numpy.random.RandomState\<close> belongs to numpy, not to this repository.  A generator
  state has the open type \<open>'g\<close>; the two operations the code uses are parameters:
  \<^item> \<open>rs_seed s\<close> is the state of \<open>RandomState(s)\<close> for an integer seed \<open>s\<close>;
  \<^item> \<open>rs_choice g a size\<close> is \<open>choice(a, size=size, replace=True)\<close> on the generator in
    state \<open>g\<close>: the drawn entries and the next state.
  Both can raise.  \<open>RandomState(None)\<close> takes its state from the operating system; that
  state is the input \<open>entropy\<close> of the model.
\<close>

record 'g rng_ops =
  rs_seed :: "int \<Rightarrow> py_error + 'g"
  rs_choice :: "'g \<Rightarrow> nat list \<Rightarrow> nat \<Rightarrow> py_error + (nat list \<times> 'g)"

definition RandomState :: "'g rng_ops \<Rightarrow> 'g \<Rightarrow> int option \<Rightarrow> py_error + 'g" where
  "RandomState rng entropy seed =
     (case seed of None \<Rightarrow> Inr entropy | Some s \<Rightarrow> rs_seed rng s)"

text \<open>
  What numpy documents of \<open>choice\<close>: from a non-empty population it returns \<open>size\<close>
  entries, each one of the population.
\<close>

definition valid_choice :: "'g rng_ops \<Rightarrow> bool" where
  "valid_choice rng \<longleftrightarrow>
     (\<forall>g a n. a \<noteq> [] \<longrightarrow>
        (\<exists>xs g'. rs_choice rng g a n = Inr (xs, g') \<and> length xs = n \<and> set xs \<subseteq> set a))"

text \<open>
  A small linear congruential generator, to run the definitions on: the state is a
  number below 16, a draw advances it and takes the entry at the state's position.
\<close>

fun lcg_draw :: "nat \<Rightarrow> nat list \<Rightarrow> nat \<Rightarrow> nat list \<times> nat" where
  "lcg_draw g a 0 = ([], g)"
| "lcg_draw g a (Suc k) =
     (let g' = (5 * g + 3) mod 16;
          (xs, g'') = lcg_draw g' a k
      in (a ! (g' mod length a) # xs, g''))"

definition lcg_rng :: "nat rng_ops" where
  "lcg_rng =
     \<lparr> rs_seed = (\<lambda>s. if 0 \<le> s \<and> s < 2 ^ 32 then Inr (nat s mod 16) else Inl ValueError),
       rs_choice = (\<lambda>g a n. if a = [] then Inl ValueError else Inr (lcg_draw g a n)) \<rparr>"

section \<open>Bootstrap out-of-bag resampling\<close>

text \<open>
  The loop shared by \<open>BootstrapOutOfBag.split\<close> (backend/utils.py) and
  \<open>OOBSampler.split\<close> (model_comparison/model_selection.py):
  \<^verbatim>\<open>
      for _ in range(self.n_splits):
          train_idx = rand_gen.choice(sample_indicators, size=nrows, replace=True)
          test_idx = np.array(
              list(set(sample_indicators) - set(train_idx)), dtype=int)
          yield train_idx, test_idx
  \<close>
  The result is the list of the pairs yielded, the exception that ended the iteration
  if there was one, and the state of the generator at the end.  \<open>test_idx\<close> is built
  from a Python set, whose iteration order the language leaves open: the model keeps the
  set of its entries.
\<close>

fun oob_splits ::
  "'g rng_ops \<Rightarrow> nat list \<Rightarrow> nat \<Rightarrow> nat \<Rightarrow> 'g
   \<Rightarrow> (nat list \<times> nat set) list \<times> py_error option \<times> 'g" where
  "oob_splits rng sample_indicators nrows 0 g = ([], None, g)"
| "oob_splits rng sample_indicators nrows (Suc k) g =
     (case rs_choice rng g sample_indicators nrows of
        Inl e \<Rightarrow> ([], Some e, g)
      | Inr (train_idx, g') \<Rightarrow>
          (let test_idx = set sample_indicators - set train_idx;
               (rest, err, g'') = oob_splits rng sample_indicators nrows k g'
           in ((train_idx, test_idx) # rest, err, g'')))"

text \<open>
  \<^verbatim>\<open>
  class BootstrapOutOfBag:
      def __init__(self, n_splits=10, random_state=None):
          self.n_splits = n_splits
          self.random_state = random_state

      def split(self, X, y):
          rand_gen = np.random.RandomState(self.random_state)
          nrows, _ = np.shape(X)
          sample_indicators = np.arange(nrows)
          for _ in range(self.n_splits): ...
  \<close>
  \<open>split\<close> reads of \<open>X\<close> only \<open>np.shape(X)\<close>, and nothing of \<open>y\<close>: the model takes the
  shape.  Unpacking a shape that has not two entries raises \<open>ValueError\<close>.
\<close>

record BootstrapOutOfBag =
  n_splits :: int
  random_state :: "int option"

definition BootstrapOutOfBag_split ::
  "'g rng_ops \<Rightarrow> 'g \<Rightarrow> BootstrapOutOfBag \<Rightarrow> nat list
   \<Rightarrow> (nat list \<times> nat set) list \<times> py_error option" where
  "BootstrapOutOfBag_split rng entropy self X_shape =
     (case RandomState rng entropy (random_state self) of
        Inl e \<Rightarrow> ([], Some e)
      | Inr rand_gen \<Rightarrow>
          (case X_shape of
             [nrows, ncols] \<Rightarrow>
               (let sample_indicators = [0..<nrows];
                    (pairs, err, g) =
                       oob_splits rng sample_indicators nrows (nat (n_splits self)) rand_gen
                in (pairs, err))
           | _ \<Rightarrow> ([], Some ValueError)))"

text \<open>
  \<^verbatim>\<open>
  class OOBSampler:
      def __init__(self, n_splits, random_state):
          self.n_splits = n_splits
          self.rgen = np.random.RandomState(random_state)

      def split(self, X **kwargs):
          nrows, _ = np.shape(X)
          sample_idxs = np.arange(nrows, dtype=int)
          for _ in range(self.n_splits): ...
  \<close>
  The header of \<open>split\<close> lacks the comma between \<open>X\<close> and \<open>**kwargs\<close>; the model reads it
  as \<open>split(self, X, **kwargs)\<close>.  The generator is made once, by the constructor, and
  each \<open>split\<close> leaves it advanced.
\<close>

record 'g OOBSampler =
  oob_n_splits :: int
  rgen :: 'g

definition OOBSampler_init ::
  "'g rng_ops \<Rightarrow> 'g \<Rightarrow> int \<Rightarrow> int option \<Rightarrow> py_error + 'g OOBSampler" where
  "OOBSampler_init rng entropy n_splits_arg random_state_arg =
     and_then (RandomState rng entropy random_state_arg)
       (\<lambda>g. Inr \<lparr> oob_n_splits = n_splits_arg, rgen = g \<rparr>)"

definition OOBSampler_split ::
  "'g rng_ops \<Rightarrow> 'g OOBSampler \<Rightarrow> nat list
   \<Rightarrow> (nat list \<times> nat set) list \<times> py_error option \<times> 'g OOBSampler" where
  "OOBSampler_split rng self X_shape =
     (case X_shape of
        [nrows, ncols] \<Rightarrow>
          (let sample_idxs = [0..<nrows];
               (pairs, err, g) =
                  oob_splits rng sample_idxs nrows (nat (oob_n_splits self)) (rgen self)
           in (pairs, err, self\<lparr>rgen := g\<rparr>))
      | _ \<Rightarrow> ([], Some ValueError, self))"

section \<open>Bootstrap bias corrected cross-validation (model_comparison/model_selection.py)\<close>

text \<open>
  \<^verbatim>\<open>
  def bbc_cv(scores, n_iter=5, random_state=None):
      nrows, _ = np.shape(scores)
      sampler = OOBSampler(n_splits, random_state)

      for smaple_idx, oob_idx in sampler.split(scores)

      loss_bbc = 0
      for _ in range(n_iter):
          idxs = np.random.choice(nrows, size=nrows, replace=True)
          # Configuration selection strategy (Tsamardinos & Greasidou, 2018).
          loss_bbc = loss_bbc + np.argmin(scores[idxs, :])

          np.array(
              list(set(sample_indicators) - set(train_idx)), dtype=int
          )

      return loss_bbc / n_iter
  \<close>
  The file as it stands is not accepted by the Python compiler: the first \<open>for\<close> has
  neither colon nor body (and the header of \<open>OOBSampler.split\<close> lacks a comma).  The
  model follows the statements in their order and reads that \<open>for\<close> as a loop with an
  empty body.

  The body uses three names that the function never assigns, \<open>n_splits\<close>,
  \<open>sample_indicators\<close> and \<open>train_idx\<close>: Python looks them up among the globals of the
  module when the statement runs, and raises \<open>NameError\<close> for a name that is not
  bound.  The bindings are a parameter of the model; \<open>model_selection_globals\<close> are those
  of the module as it is written, which binds none of the three.

  \<open>np.random.choice\<close> draws from the generator of the numpy module, which every caller
  in the process shares: its state is an input of the model and is returned advanced.
\<close>

record py_globals =
  g_n_splits :: "int option"
  g_sample_indicators :: "nat list option"
  g_train_idx :: "nat list option"

definition model_selection_globals :: py_globals where
  "model_selection_globals =
     \<lparr> g_n_splits = None, g_sample_indicators = None, g_train_idx = None \<rparr>"

text \<open>
  The matrix \<open>scores\<close> is the list of its rows.  \<open>nrows, _ = np.shape(scores)\<close> needs a
  shape of two entries: it raises \<open>ValueError\<close> for the empty list (shape \<open>(0,)\<close>) and
  for rows of different lengths.
\<close>

definition np_shape2 :: "real list list \<Rightarrow> py_error + (nat \<times> nat)" where
  "np_shape2 scores =
     (case scores of
        [] \<Rightarrow> Inl ValueError
      | r # rs \<Rightarrow>
          if list_all (\<lambda>r'. length r' = length r) rs
          then Inr (length scores, length r)
          else Inl ValueError)"

text \<open>\<open>scores[idxs, :]\<close>: the rows at \<open>idxs\<close>; an index outside the matrix raises.\<close>

definition take_rows :: "real list list \<Rightarrow> nat list \<Rightarrow> py_error + real list list" where
  "take_rows scores idxs =
     (if list_all (\<lambda>i. i < length scores) idxs
      then Inr (map (\<lambda>i. scores ! i) idxs)
      else Inl IndexError)"

text \<open>
  \<open>np.argmin\<close> without an axis works on the flattened array: the position, in row-major
  order, of the first smallest entry.  It raises \<open>ValueError\<close> on an empty array.
\<close>

fun argmin_from :: "real \<Rightarrow> nat \<Rightarrow> nat \<Rightarrow> real list \<Rightarrow> nat" where
  "argmin_from best best_pos pos [] = best_pos"
| "argmin_from best best_pos pos (x # xs) =
     (if x < best then argmin_from x pos (Suc pos) xs
      else argmin_from best best_pos (Suc pos) xs)"

definition np_argmin :: "real list list \<Rightarrow> py_error + nat" where
  "np_argmin m =
     (case concat m of
        [] \<Rightarrow> Inl ValueError
      | x # xs \<Rightarrow> Inr (argmin_from x 0 1 xs))"

text \<open>
  The expression statement at the end of the loop body; its value is dropped, but its
  names are looked up, \<open>sample_indicators\<close> first.
\<close>

definition oob_expression :: "py_globals \<Rightarrow> py_error + nat set" where
  "oob_expression glob =
     (case g_sample_indicators glob of
        None \<Rightarrow> Inl NameError
      | Some sample_indicators \<Rightarrow>
          (case g_train_idx glob of
             None \<Rightarrow> Inl NameError
           | Some train_idx \<Rightarrow> Inr (set sample_indicators - set train_idx)))"

text \<open>The second loop: \<open>k\<close> iterations are left, \<open>G\<close> is the state of \<open>np.random\<close>.\<close>

fun bbc_cv_loop ::
  "'g rng_ops \<Rightarrow> py_globals \<Rightarrow> real list list \<Rightarrow> nat \<Rightarrow> nat \<Rightarrow> int \<Rightarrow> 'g
   \<Rightarrow> (py_error + int) \<times> 'g" where
  "bbc_cv_loop rng glob scores nrows 0 loss_bbc G = (Inr loss_bbc, G)"
| "bbc_cv_loop rng glob scores nrows (Suc k) loss_bbc G =
     (case rs_choice rng G [0..<nrows] nrows of
        Inl e \<Rightarrow> (Inl e, G)
      | Inr (idxs, G') \<Rightarrow>
          (case and_then (take_rows scores idxs) np_argmin of
             Inl e \<Rightarrow> (Inl e, G')
           | Inr pos \<Rightarrow>
               (case oob_expression glob of
                  Inl e \<Rightarrow> (Inl e, G')
                | Inr unused \<Rightarrow>
                    bbc_cv_loop rng glob scores nrows k (loss_bbc + int pos) G')))"

text \<open>
  \<open>loss_bbc / n_iter\<close> is Python's true division of two integers; \<open>range(n_iter)\<close> is
  empty for \<open>n_iter \<le> 0\<close>.
\<close>

definition bbc_cv ::
  "'g rng_ops \<Rightarrow> py_globals \<Rightarrow> 'g \<Rightarrow> 'g \<Rightarrow> real list list \<Rightarrow> int \<Rightarrow> int option
   \<Rightarrow> (py_error + real) \<times> 'g" where
  "bbc_cv rng glob entropy G scores n_iter random_state_arg =
     (case np_shape2 scores of
        Inl e \<Rightarrow> (Inl e, G)
      | Inr (nrows, ncols) \<Rightarrow>
          (case g_n_splits glob of
             None \<Rightarrow> (Inl NameError, G)
           | Some n_splits_val \<Rightarrow>
               (case OOBSampler_init rng entropy n_splits_val random_state_arg of
                  Inl e \<Rightarrow> (Inl e, G)
                | Inr sampler \<Rightarrow>
                    (case OOBSampler_split rng sampler [nrows, ncols] of
                       (pairs, Some e, sampler') \<Rightarrow> (Inl e, G)
                     | (pairs, None, sampler') \<Rightarrow>
                         (case bbc_cv_loop rng glob scores nrows (nat n_iter) 0 G of
                            (Inl e, G') \<Rightarrow> (Inl e, G')
                          | (Inr loss_bbc, G') \<Rightarrow>
                              (and_then (py_truediv (real_of_int loss_bbc) (real_of_int n_iter))
                                 Inr, G'))))))"

text \<open>
  The quantity the function is meant to estimate: the loss of a configuration, the mean
  of its column.
\<close>

definition column_loss :: "real list list \<Rightarrow> nat \<Rightarrow> real option" where
  "column_loss scores j = np_mean (map (\<lambda>row. row ! j) scores)"

section \<open>Nested cross-validation (experiments/comparison_schemes.py)\<close>

subsection \<open>The name of the file of preliminary results\<close>

text \<open>
  \<^verbatim>\<open>
      if path_tmp_results is None:
          path_case_file = ''
      else:
          path_case_file = os.path.join(
              path_tmp_results, f'experiment_{random_state}_{experiment_id}'
          )
  \<close>
  The seed is an integer or \<open>None\<close>, and is formatted as \<open>str\<close> does.  \<open>os.path.join\<close> is
  the one of POSIX.
\<close>

fun str_nat :: "nat \<Rightarrow> string" where
  "str_nat n =
     (if n < 10 then [''0123456789'' ! n]
      else str_nat (n div 10) @ [''0123456789'' ! (n mod 10)])"

declare str_nat.simps [simp del]

definition str_int :: "int \<Rightarrow> string" where
  "str_int i = (if i < 0 then ''-'' @ str_nat (nat (- i)) else str_nat (nat i))"

definition str_seed :: "int option \<Rightarrow> string" where
  "str_seed seed = (case seed of None \<Rightarrow> ''None'' | Some i \<Rightarrow> str_int i)"

definition os_path_join :: "string \<Rightarrow> string \<Rightarrow> string" where
  "os_path_join a b =
     (if b \<noteq> [] \<and> hd b = CHR ''/'' then b
      else if a = [] \<or> last a = CHR ''/'' then a @ b
      else a @ ''/'' @ b)"

definition path_case_file :: "string option \<Rightarrow> int option \<Rightarrow> string \<Rightarrow> string" where
  "path_case_file path_tmp_results random_state_arg experiment_id =
     (case path_tmp_results of
        None \<Rightarrow> []
      | Some dir \<Rightarrow>
          os_path_join dir (''experiment_'' @ str_seed random_state_arg @ ''_'' @ experiment_id))"

subsection \<open>The result record and the collaborators\<close>

text \<open>
  The result is a Python dictionary from names to values; \<open>'v\<close> is the type of the
  values of hyperparameters.  A mean or variance of no scores is numpy's not-a-number,
  the \<open>None\<close> of \<open>PFloat\<close>.
\<close>

datatype 'v pyval =
    PNone
  | PInt int
  | PStr string
  | PFloat "real option"
  | PVotes "int list"
  | PDuration real
  | PParam 'v

type_synonym 'v pydict = "string \<rightharpoonup> 'v pyval"

text \<open>
  What the function calls from outside this module is a parameter: the
  file system (\<open>os.path.isfile\<close>, and \<open>read_prelim_result\<close> and \<open>write_prelim_results\<close>
  of the module \<open>ioutil\<close>) over an open type \<open>'fs\<close> of file system states, and
  scikit-learn and SMAC:
  \<^item> \<open>kfold_split cv seed X y\<close>: the folds of
    \<open>StratifiedKFold(cv, shuffle=True, random_state=seed).split(X, y)\<close>, each already
    as \<open>(X_train, X_test, y_train, y_test)\<close>;
  \<^item> \<open>search\<close>: \<open>SMACSearchCV(...).fit(X_train, y_train)\<close> and its \<open>best_config\<close>; the
    search writes its metadata to disk, so it returns a file system state;
  \<^item> \<open>fit_pipeline\<close>: a copy of the pipeline with the configuration set and fitted;
  \<^item> \<open>support_of\<close>: \<open>pipeline_outer.steps[-2][-1].support\<close>;
  \<^item> \<open>predict\<close>: \<open>np.squeeze(pipeline_outer.predict(X))\<close>;
  \<^item> \<open>n_features\<close>: \<open>X.shape[1]\<close>.
\<close>

record ('fs, 'x, 'y, 'p, 'v) ncv_env =
  isfile :: "'fs \<Rightarrow> string \<Rightarrow> bool"
  read_prelim_result :: "'fs \<Rightarrow> string \<Rightarrow> py_error + 'v pydict"
  write_prelim_results :: "'fs \<Rightarrow> string \<Rightarrow> 'v pydict \<Rightarrow> py_error + 'fs"
  n_features :: "'x \<Rightarrow> py_error + nat"
  kfold_split :: "int \<Rightarrow> int option \<Rightarrow> 'x \<Rightarrow> 'y \<Rightarrow> py_error + ('x \<times> 'x \<times> 'y \<times> 'y) list"
  search :: "'fs \<Rightarrow> 'x \<Rightarrow> 'y \<Rightarrow> py_error + ('v pydict \<times> 'fs)"
  fit_pipeline :: "'v pydict \<Rightarrow> 'x \<Rightarrow> 'y \<Rightarrow> py_error + 'p"
  support_of :: "'p \<Rightarrow> py_error + nat list"
  predict :: "'p \<Rightarrow> 'x \<Rightarrow> py_error + 'y"
  score :: "'y \<Rightarrow> 'y \<Rightarrow> py_error + real"

subsection \<open>The outer folds\<close>

text \<open>
  \<open>feature_votes[support] += 1\<close> adds one at every position that occurs in \<open>support\<close>,
  once however often it occurs, and raises for a position outside the array.
\<close>

definition add_votes :: "int list \<Rightarrow> nat list \<Rightarrow> py_error + int list" where
  "add_votes votes support =
     (if list_all (\<lambda>i. i < length votes) support
      then Inr (map (\<lambda>(j, v). if j \<in> set support then v + 1 else v)
                    (enumerate 0 votes))
      else Inl IndexError)"

record ('fs, 'v) fold_state =
  output_dict :: "'v pydict"
  test_scores :: "real list"
  train_scores :: "real list"
  feature_votes :: "int list"
  files :: 'fs

text \<open>
  The body of the loop over the outer folds:
  \<^verbatim>\<open>
          X_train, X_test = X[train_idx], X[test_idx]
          y_train, y_test = y[train_idx], y[test_idx]
          pipeline_inner = deepcopy(pipeline)
          optimizer = SMACSearchCV(...)
          optimizer.fit(X_train, y_train)
          output.update(**optimizer.best_config)
          pipeline_outer = deepcopy(pipeline)
          pipeline_outer.set_params(**optimizer.best_config)
          pipeline_outer.fit(X_train, y_train)
          feature_votes[pipeline_outer.steps[-2][-1].support] += 1
          test_scores.append(
              score_func(y_test, np.squeeze(pipeline_outer.predict(X_test))))
          train_scores.append(
              score_func(y_train, np.squeeze(pipeline_outer.predict(X_train))))
  \<close>
\<close>

definition outer_fold ::
  "('fs, 'x, 'y, 'p, 'v) ncv_env \<Rightarrow> ('fs, 'v) fold_state \<Rightarrow> 'x \<times> 'x \<times> 'y \<times> 'y
   \<Rightarrow> py_error + ('fs, 'v) fold_state" where
  "outer_fold env st this_fold =
     (case this_fold of (X_train, X_test, y_train, y_test) \<Rightarrow>
        and_then (search env (files st) X_train y_train) (\<lambda>(best_config, fs').
        and_then (fit_pipeline env best_config X_train y_train) (\<lambda>pipeline_outer.
        and_then (support_of env pipeline_outer) (\<lambda>support.
        and_then (add_votes (feature_votes st) support) (\<lambda>votes'.
        and_then (predict env pipeline_outer X_test) (\<lambda>y_test_pred.
        and_then (score env y_test y_test_pred) (\<lambda>test_score.
        and_then (predict env pipeline_outer X_train) (\<lambda>y_train_pred.
        and_then (score env y_train y_train_pred) (\<lambda>train_score.
        Inr \<lparr> output_dict = output_dict st ++ best_config,
              test_scores = test_scores st @ [test_score],
              train_scores = train_scores st @ [train_score],
              feature_votes = votes',
              files = fs' \<rparr>)))))))))"

text \<open>
  The loop.  Beside its result it returns the number of folds whose body was entered,
  which is not a value of the program but counts what it did.
\<close>

fun outer_folds ::
  "('fs, 'x, 'y, 'p, 'v) ncv_env \<Rightarrow> ('fs, 'v) fold_state \<Rightarrow> ('x \<times> 'x \<times> 'y \<times> 'y) list
   \<Rightarrow> (py_error + ('fs, 'v) fold_state) \<times> nat" where
  "outer_folds env st [] = (Inr st, 0)"
| "outer_folds env st (this_fold # folds) =
     (case outer_fold env st this_fold of
        Inl e \<Rightarrow> (Inl e, 1)
      | Inr st' \<Rightarrow>
          (case outer_folds env st' folds of (r, n) \<Rightarrow> (r, Suc n)))"

text \<open>\<open>np.var\<close>: the mean of the squared distances to the mean.\<close>

definition np_var :: "real list \<Rightarrow> real option" where
  "np_var xs =
     (case np_mean xs of
        None \<Rightarrow> None
      | Some mu \<Rightarrow> np_mean (map (\<lambda>x. (x - mu) ^ 2) xs))"

subsection \<open>The function\<close>

text \<open>
  \<^verbatim>\<open>
      if os.path.isfile(path_case_file):
          output = ioutil.read_prelim_result(path_case_file)
          print(f'Reloading results from: {path_case_file}')
      else:
          output = {'exp_id': random_state, 'experiment_id': experiment_id}
          if verbose > 0:
              start_time = datetime.now()
          pipeline, hparam_space = workflow
          test_scores, train_scores = [], []
          feature_votes = np.zeros(X.shape[1], dtype=np.int32)
          kfolds = StratifiedKFold(cv, shuffle=True, random_state=random_state)
          for (train_idx, test_idx) in kfolds.split(X, y):
              ...
          output.update(OrderedDict([
              ('test_score', np.mean(test_scores)),
              ('train_score', np.mean(train_scores)),
              ('test_score_variance', np.var(test_scores)),
              ('train_score_variance', np.var(train_scores)),
              ('feature_votes', feature_votes)]))
          if path_tmp_results is not None:
              ioutil.write_prelim_results(path_case_file, output)
              if verbose > 0:
                  duration = datetime.now() - start_time
                  output['exp_duration'] = duration
      return output
  \<close>
  The outcome of a call is what it returns or raises, the number of folds it ran and
  the file system it leaves.  The printed lines are not modelled; \<open>elapsed\<close> is the
  time that the clock shows to have passed.
\<close>

record ('fs, 'v) ncv_outcome =
  returned :: "py_error + 'v pydict"
  folds_run :: nat
  files_after :: 'fs

definition seed_value :: "int option \<Rightarrow> 'v pyval" where
  "seed_value seed = (case seed of None \<Rightarrow> PNone | Some i \<Rightarrow> PInt i)"

definition finish_experiment ::
  "('fs, 'x, 'y, 'p, 'v) ncv_env \<Rightarrow> ('fs, 'v) fold_state \<Rightarrow> string option \<Rightarrow> string
   \<Rightarrow> int \<Rightarrow> real \<Rightarrow> (py_error + 'v pydict) \<times> 'fs" where
  "finish_experiment env st path_tmp_results pcf verbose elapsed =
     (let out = (output_dict st)
            (''test_score'' \<mapsto> PFloat (np_mean (test_scores st)),
             ''train_score'' \<mapsto> PFloat (np_mean (train_scores st)),
             ''test_score_variance'' \<mapsto> PFloat (np_var (test_scores st)),
             ''train_score_variance'' \<mapsto> PFloat (np_var (train_scores st)),
             ''feature_votes'' \<mapsto> PVotes (feature_votes st))
      in if path_tmp_results = None then (Inr out, files st)
         else (case write_prelim_results env (files st) pcf out of
                 Inl e \<Rightarrow> (Inl e, files st)
               | Inr fs' \<Rightarrow>
                   (Inr (if verbose > 0 then out(''exp_duration'' \<mapsto> PDuration elapsed) else out),
                    fs')))"

definition nested_cross_validation_smac ::
  "('fs, 'x, 'y, 'p, 'v) ncv_env \<Rightarrow> 'fs \<Rightarrow> 'x \<Rightarrow> 'y \<Rightarrow> string \<Rightarrow> int \<Rightarrow> int \<Rightarrow> int option
   \<Rightarrow> string option \<Rightarrow> real \<Rightarrow> ('fs, 'v) ncv_outcome" where
  "nested_cross_validation_smac env fs X y experiment_id cv verbose random_state_arg
       path_tmp_results elapsed =
     (let pcf = path_case_file path_tmp_results random_state_arg experiment_id
      in if isfile env fs pcf
         then \<lparr> returned = read_prelim_result env fs pcf, folds_run = 0, files_after = fs \<rparr>
         else
           (let output0 = [''exp_id'' \<mapsto> seed_value random_state_arg,
                           ''experiment_id'' \<mapsto> PStr experiment_id]
            in case n_features env X of
                 Inl e \<Rightarrow> \<lparr> returned = Inl e, folds_run = 0, files_after = fs \<rparr>
               | Inr nf \<Rightarrow>
                   (case kfold_split env cv random_state_arg X y of
                      Inl e \<Rightarrow> \<lparr> returned = Inl e, folds_run = 0, files_after = fs \<rparr>
                    | Inr folds \<Rightarrow>
                        (case outer_folds env
                                \<lparr> output_dict = output0, test_scores = [], train_scores = [],
                                  feature_votes = replicate nf 0, files = fs \<rparr> folds of
                           (Inl e, n) \<Rightarrow> \<lparr> returned = Inl e, folds_run = n, files_after = fs \<rparr>
                         | (Inr st, n) \<Rightarrow>
                             (case finish_experiment env st path_tmp_results pcf verbose elapsed of
                                (r, fs') \<Rightarrow>
                                  \<lparr> returned = r, folds_run = n, files_after = fs' \<rparr>)))))"

text \<open>
  Collaborators to run the definitions on.  The file system is a list of named
  records; the data are lists of numbers, a fold is fitted by its training mean and
  scored by the mean distance; the search returns one fixed configuration.
\<close>

definition stub_env ::
  "((string \<times> int pydict) list, real list, real list, real, int) ncv_env" where
  "stub_env =
     \<lparr> isfile = (\<lambda>fs p. map_of fs p \<noteq> None),
       read_prelim_result =
         (\<lambda>fs p. case map_of fs p of None \<Rightarrow> Inl OtherError | Some r \<Rightarrow> Inr r),
       write_prelim_results = (\<lambda>fs p r. Inr ((p, r) # fs)),
       n_features = (\<lambda>X. Inr 1),
       kfold_split =
         (\<lambda>cv seed X y. if cv < 2 then Inl ValueError
                         else Inr (map (\<lambda>k. (X, X, y, y)) [0..<nat cv])),
       search = (\<lambda>fs X y. Inr ([''k'' \<mapsto> PParam 1], fs)),
       fit_pipeline = (\<lambda>cfg X y. case np_mean y of None \<Rightarrow> Inl ValueError | Some mu \<Rightarrow> Inr mu),
       support_of = (\<lambda>p. Inr [0]),
       predict = (\<lambda>p X. Inr (map (\<lambda>x. p) X)),
       score = (\<lambda>y yp. case np_mean (map (\<lambda>(a, b). \<bar>a - b\<bar>) (zip y yp)) of
                          None \<Rightarrow> Inl ValueError | Some m \<Rightarrow> Inr m) \<rparr>"

definition stored_record :: "int pydict" where
  "stored_record = [''exp_id'' \<mapsto> PInt 7, ''test_score'' \<mapsto> PFloat (Some 0.9)]"

section \<open>Properties of the .632+ estimator\<close>

lemma py_truediv_nonzero: "b \<noteq> 0 \<Longrightarrow> py_truediv a b = Inr (a / b)"
  by (simp add: py_truediv_def)



lemma one_less_overflow_threshold: "1 < overflow_threshold"
proof -
  have "(2::real) ^ 970 * 2 \<le> 2 ^ 970 * 2 ^ 54"
    by (intro mult_left_mono) simp_all
  also have "\<dots> = 2 ^ 1024"
    by (simp flip: power_add)
  finally have "(2::real) ^ 970 + 2 ^ 970 \<le> 2 ^ 1024"
    by simp
  moreover have "(1::real) < 2 ^ 970"
    by (rule one_less_power) simp_all
  ultimately show ?thesis
    by (simp add: overflow_threshold_def)
qed

lemma fl_in_range: "in_range x \<Longrightarrow> fl x = Fin x"
  by (auto simp: in_range_def fl_def)

lemma in_range_small: "\<bar>x\<bar> \<le> 1 \<Longrightarrow> in_range x"
  using one_less_overflow_threshold by (simp add: in_range_def)

lemma in_range_scaled: "in_range x \<Longrightarrow> \<bar>c\<bar> \<le> 1 \<Longrightarrow> in_range (c * x)"
proof -
  assume x: "in_range x" and c: "\<bar>c\<bar> \<le> 1"
  have "\<bar>c * x\<bar> = \<bar>c\<bar> * \<bar>x\<bar>" by (simp add: abs_mult)
  also have "\<dots> \<le> 1 * \<bar>x\<bar>" by (intro mult_right_mono c) simp
  finally show "in_range (c * x)" using x by (simp add: in_range_def)
qed

lemma in_range_blend:
  assumes "in_range a" and "in_range b"
  shows "in_range (0.368 * a + 0.632 * b)"
proof -
  have "\<bar>0.368 * a + 0.632 * b\<bar> \<le> 0.368 * \<bar>a\<bar> + 0.632 * \<bar>b\<bar>"
    by (simp add: abs_if)
  also have "\<dots> < 0.368 * overflow_threshold + 0.632 * overflow_threshold"
    using assms by (simp add: in_range_def add_strict_mono)
  also have "\<dots> = overflow_threshold" by simp
  finally show ?thesis by (simp add: in_range_def)
qed

lemma fmul_Fin: "in_range (a * b) \<Longrightarrow> fmul (Fin a) (Fin b) = Fin (a * b)"
  by (simp only: fmul.simps fl_in_range)

lemma fadd_Fin: "in_range (a + b) \<Longrightarrow> fadd (Fin a) (Fin b) = Fin (a + b)"
  by (simp only: fadd.simps fl_in_range)

lemma fsub_Fin: "in_range (a - b) \<Longrightarrow> fsub (Fin a) (Fin b) = Fin (a - b)"
  by (simp add: fsub_def fl_in_range)

lemma fdiv_Fin:
  "in_range (a / b) \<Longrightarrow> fdiv (Fin a) (Fin b) = map_sum id Fin (py_truediv a b)"
  by (simp add: py_truediv_def fl_in_range)

text \<open>The two models of \<open>point632plus\<close> agree while every value computed is in range.\<close>

lemma point632plus_real_agrees:
  assumes "intermediates_in_range train_score test_score r_marked test_score_marked"
  shows "point632plus (Fin train_score) (Fin test_score) (Fin r_marked) (Fin test_score_marked)
           = map_sum id Fin
               (point632plus_real train_score test_score r_marked test_score_marked)"
proof -
  define num where "num = 0.368 * 0.632 * r_marked"
  define den where "den = 1 - 0.368 * r_marked"
  define p where "p = 0.368 * train_score + 0.632 * test_score"
  define d where "d = test_score_marked - train_score"
  from assms have r:
    "in_range (0.368 * train_score)" "in_range (0.632 * test_score)" "in_range p"
    "in_range num" "in_range (0.368 * r_marked)" "in_range den" "in_range (num / den)"
    "in_range d" "in_range (d * (num / den))" "in_range (p + d * (num / den))"
    unfolding intermediates_in_range_def num_def den_def p_def d_def by blast+
  have c: "fmul (Fin 0.368) (Fin 0.632) = Fin (0.368 * 0.632)"
    by (rule fmul_Fin) (simp add: in_range_small)
  have P: "fadd (fmul (Fin 0.368) (Fin train_score)) (fmul (Fin 0.632) (Fin test_score)) = Fin p"
    using r(1,2,3) by (simp only: fmul_Fin fadd_Fin p_def)
  have N: "fmul (fmul (Fin 0.368) (Fin 0.632)) (Fin r_marked) = Fin num"
    using r(4) by (simp only: c fmul_Fin num_def)
  have D: "fsub (Fin 1) (fmul (Fin 0.368) (Fin r_marked)) = Fin den"
    using r(5,6) by (simp only: fmul_Fin fsub_Fin den_def)
  have Q: "fdiv (Fin num) (Fin den) = map_sum id Fin (py_truediv num den)"
    using r(7) by (rule fdiv_Fin)
  have S: "fsub (Fin test_score_marked) (Fin train_score) = Fin d"
    using r(8) by (simp only: fsub_Fin d_def)
  have T: "fadd (Fin p) (fmul (Fin d) (Fin (num / den))) = Fin (p + d * (num / den))"
    using r(9,10) by (simp only: fmul_Fin fadd_Fin)
  have lhs: "point632plus (Fin train_score) (Fin test_score) (Fin r_marked) (Fin test_score_marked)
      = (case map_sum id Fin (py_truediv num den) of
           Inl e \<Rightarrow> Inl e
         | Inr frac_val \<Rightarrow> Inr (fadd (Fin p) (fmul (Fin d) frac_val)))"
    unfolding point632plus_def Let_def by (simp only: P N D Q S)
  have rhs: "point632plus_real train_score test_score r_marked test_score_marked
      = (case py_truediv num den of
           Inl e \<Rightarrow> Inl e
         | Inr frac_val \<Rightarrow> Inr (p + d * frac_val))"
    unfolding point632plus_real_def Let_def num_def den_def p_def d_def by (rule refl)
  show ?thesis
    unfolding lhs rhs using T by (cases "den = 0") (simp_all add: py_truediv_def)
qed

text \<open>
  C7, as it is worded, is about all float inputs.  There it fails: with
  \<open>test_score_marked\<close> infinite, or with finite arguments whose difference
  \<open>test_score_marked - train_score\<close> overflows, that difference is an infinity, its
  product with the zero \<open>frac\<close> is not-a-number, and so is the result, where
  \<open>0.368 * train_score + 0.632 * test_score\<close> is a finite number.
\<close>

theorem point632plus_zero_rate_nan:
  "point632plus (Fin 0.5) (Fin 0.5) (Fin 0) PInf = Inr NaN
   \<and> fadd (fmul (Fin 0.368) (Fin 0.5)) (fmul (Fin 0.632) (Fin 0.5)) = Fin 0.5
   \<and> point632plus (Fin (- (10 ^ 308))) (Fin 0) (Fin 0) (Fin (10 ^ 308)) = Inr NaN
   \<and> fadd (fmul (Fin 0.368) (Fin (- (10 ^ 308)))) (fmul (Fin 0.632) (Fin 0))
       = Fin (- (368 * 10 ^ 305))"
  by (simp add: point632plus_def fsub_def fl_def signed_inf_def overflow_threshold_def)

text \<open>
  C7.  For finite \<open>train_score\<close> and \<open>test_score\<close> and a \<open>test_score_marked\<close> whose
  difference to \<open>train_score\<close> is finite, \<open>point632plus\<close> with overfit rate 0 returns
  \<open>0.368 * train_score + 0.632 * test_score\<close>: the correction term vanishes.
\<close>

theorem point632plus_zero_rate:
  assumes "in_range train_score" and "in_range test_score"
    and "in_range (test_score_marked - train_score)"
  shows "point632plus (Fin train_score) (Fin test_score) (Fin 0) (Fin test_score_marked)
           = Inr (Fin (0.368 * train_score + 0.632 * test_score))"
proof -
  have z: "in_range 0" "in_range 1" by (simp_all add: in_range_small)
  have "intermediates_in_range train_score test_score 0 test_score_marked"
    unfolding intermediates_in_range_def
    using assms z in_range_scaled [OF assms(1), of "0.368"]
      in_range_scaled [OF assms(2), of "0.632"] in_range_blend [OF assms(1,2)]
    by simp
  from point632plus_real_agrees [OF this] show ?thesis
    by (simp add: point632plus_real_def py_truediv_def)
qed

theorem point632plus_zero_rate_witness:
  "in_range 0.5 \<and> in_range 0.75 \<and> in_range (1 - 0.5)
   \<and> point632plus (Fin 0.5) (Fin 0.75) (Fin 0) (Fin 1) = Inr (Fin 0.658)"
proof -
  have a: "in_range 0.5" and b: "in_range 0.75" and d: "in_range (1 - 0.5)"
    by (simp_all add: in_range_small)
  from point632plus_zero_rate [OF a b d] a b d show ?thesis
    by simp
qed

text \<open>
  C6.  For binary vectors of equal positive length, \<open>no_info_rate\<close> is
  \<open>p * (1 - q) + (1 - p) * q\<close> with \<open>p\<close> and \<open>q\<close> the means of \<open>y_true\<close> and \<open>y_pred\<close>;
  \<open>no_info_rate y y\<close> is \<open>2 * p * (1 - p)\<close>.
\<close>

theorem no_info_rate_formula:
  assumes "set y_true \<subseteq> {0, 1}" and "set y_pred \<subseteq> {0, 1}"
    and "length y_true = length y_pred" and "0 < length y_true"
  shows "no_info_rate y_true y_pred
           = Some ((sum_list y_true / real (length y_true))
                     * (1 - sum_list y_pred / real (length y_pred))
                   + (1 - sum_list y_true / real (length y_true))
                     * (sum_list y_pred / real (length y_pred)))
         \<and> no_info_rate y_true y_true
           = Some (2 * (sum_list y_true / real (length y_true))
                     * (1 - sum_list y_true / real (length y_true)))"
proof -
  define p where "p = sum_list y_true / real (length y_true)"
  define q where "q = sum_list y_pred / real (length y_pred)"
  have mp: "np_mean y_true = Some p" and mq: "np_mean y_pred = Some q"
    using assms by (simp_all add: np_mean_def p_def q_def)
  have "p * (1 - p) + (1 - p) * p = 2 * p * (1 - p)"
    by (simp add: algebra_simps)
  then show ?thesis
    using mp mq by (simp add: no_info_rate_def flip: p_def q_def)
qed

theorem no_info_rate_formula_witness:
  "no_info_rate [0, 0, 1, 1] [0, 0, 1, 1] = Some 0.5"
  using no_info_rate_formula [of "[0, 0, 1, 1]" "[0, 0, 1, 1]"]
  by simp

section \<open>Properties of \<open>scale_fit_predict632\<close>\<close>

lemma and_then_Inr_iff:
  "and_then m f = Inr y \<longleftrightarrow> (\<exists>x. m = Inr x \<and> f x = Inr y)"
  by (cases m) (simp_all add: and_then_def)

lemma and_then_Inl: "and_then (Inl e) f = Inl e"
  by (simp add: and_then_def)

lemma and_then_Inr: "and_then (Inr x) f = f x"
  by (simp add: and_then_def)

lemmas stub_defs = centre_scaler_def threshold_model_def error_rate_def
  train_test_z_scores_def np_mean_def and_then_def py_truediv_def
  point632plus_score_def point632plus_gamma_def no_info_rate_def
  relative_overfit_rate_def point632plus_real_def py_min_def

text \<open>
  C3.  Whichever step raises (standardisation, fit, either prediction, either raw score,
  either .632+ computation), \<open>scale_fit_predict632\<close> returns \<open>(None, None)\<close>; when no
  step raises it returns the two .632+ scores.  Its result type has no error case: no
  exception reaches the caller.
\<close>

theorem scale_fit_predict632_exceptions:
  assumes R: "R = scale_fit_predict632 sc ops score_func model X_train X_test y_train y_test"
  shows
   "(\<forall>e. train_test_z_scores sc X_train X_test = Inl e \<longrightarrow> R = (None, None))
  \<and> (\<forall>Xtr Xte. train_test_z_scores sc X_train X_test = Inr (Xtr, Xte) \<longrightarrow>
      (\<forall>e. m_fit ops model Xtr y_train = Inl e \<longrightarrow> R = (None, None))
    \<and> (\<forall>fitted. m_fit ops model Xtr y_train = Inr fitted \<longrightarrow>
        (\<forall>e. m_predict ops fitted Xtr = Inl e \<longrightarrow> R = (None, None))
      \<and> (\<forall>ytrp. m_predict ops fitted Xtr = Inr ytrp \<longrightarrow>
          (\<forall>e. score_func y_train ytrp = Inl e \<longrightarrow> R = (None, None))
        \<and> (\<forall>trs. score_func y_train ytrp = Inr trs \<longrightarrow>
            (\<forall>e. m_predict ops fitted Xte = Inl e \<longrightarrow> R = (None, None))
          \<and> (\<forall>ytep. m_predict ops fitted Xte = Inr ytep \<longrightarrow>
              (\<forall>e. score_func y_test ytep = Inl e \<longrightarrow> R = (None, None))
            \<and> (\<forall>tes. score_func y_test ytep = Inr tes \<longrightarrow>
                (\<forall>e. point632plus_score y_train ytrp trs tes = Inl e \<longrightarrow> R = (None, None))
              \<and> (\<forall>a. point632plus_score y_train ytrp trs tes = Inr a \<longrightarrow>
                  (\<forall>e. point632plus_score y_test ytep trs tes = Inl e \<longrightarrow> R = (None, None))
                \<and> (\<forall>b. point632plus_score y_test ytep trs tes = Inr b \<longrightarrow>
                      R = (Some a, Some b)))))))))"
  unfolding R scale_fit_predict632_def scale_fit_predict632_try_def
  by (simp add: and_then_Inl and_then_Inr)

theorem scale_fit_predict632_exceptions_witness:
  "scale_fit_predict632 centre_scaler threshold_model error_rate 0 [0, 1] [2] [0, 1] [0]
     = (Some (6241 / 4125), Some 1)
   \<and> scale_fit_predict632 centre_scaler threshold_model error_rate 0 [0, 1] [2] [0] [0]
     = (None, None)
   \<and> scale_fit_predict632 centre_scaler threshold_model error_rate 0 [] [2] [] [0]
     = (None, None)"
  using scale_fit_predict632_exceptions [OF refl, where sc = centre_scaler
          and ops = threshold_model and score_func = error_rate and model = 0
          and X_train = "[0, 1]" and X_test = "[2]" and y_train = "[0, 1]" and y_test = "[0]"]
        scale_fit_predict632_exceptions [OF refl, where sc = centre_scaler
          and ops = threshold_model and score_func = error_rate and model = 0
          and X_train = "[0, 1]" and X_test = "[2]" and y_train = "[0]" and y_test = "[0]"]
        scale_fit_predict632_exceptions [OF refl, where sc = centre_scaler
          and ops = threshold_model and score_func = error_rate and model = 0
          and X_train = "[]" and X_test = "[2]" and y_train = "[]" and y_test = "[0]"]
  by (simp add: stub_defs)

text \<open>
  C4.  In a successful call both corrected scores come from \<open>point632plus_score\<close> with
  the same raw \<open>train_score\<close> and \<open>test_score\<close>: the train score with
  \<open>(y_train, y_train_pred)\<close>, the test score with \<open>(y_test, y_test_pred)\<close>.  The pair of
  label vectors enters the formula only through \<open>no_info_rate\<close>: both scores are the one
  function \<open>point632plus_gamma\<close> of the no-information rate and the two raw scores, and
  each call computes its no-information rate from its own pair.
\<close>

theorem scale_fit_predict632_same_formula:
  assumes "scale_fit_predict632 sc ops score_func model X_train X_test y_train y_test
             = (Some a, Some b)"
  shows "\<exists>Xtr Xte fitted ytrp ytep trs tes.
           train_test_z_scores sc X_train X_test = Inr (Xtr, Xte)
         \<and> m_fit ops model Xtr y_train = Inr fitted
         \<and> m_predict ops fitted Xtr = Inr ytrp \<and> score_func y_train ytrp = Inr trs
         \<and> m_predict ops fitted Xte = Inr ytep \<and> score_func y_test ytep = Inr tes
         \<and> point632plus_score y_train ytrp trs tes = Inr a
         \<and> point632plus_score y_test ytep trs tes = Inr b
         \<and> point632plus_gamma (no_info_rate y_train ytrp) trs tes = Inr a
         \<and> point632plus_gamma (no_info_rate y_test ytep) trs tes = Inr b"
proof -
  from assms
  have "scale_fit_predict632_try sc ops score_func model X_train X_test y_train y_test
          = Inr (a, b)"
    by (auto simp: scale_fit_predict632_def split: sum.splits)
  then show ?thesis
    unfolding scale_fit_predict632_try_def
    by (auto simp: and_then_Inr_iff point632plus_score_def)
qed

theorem scale_fit_predict632_same_formula_witness:
  "\<exists>ytrp ytep trs tes.
      point632plus_gamma (no_info_rate [0, 1] ytrp) trs tes = Inr (6241 / 4125)
    \<and> point632plus_gamma (no_info_rate [0] ytep) trs tes = Inr 1"
proof -
  have "scale_fit_predict632 centre_scaler threshold_model error_rate 0 [0, 1] [2] [0, 1] [0]
     = (Some (6241 / 4125), Some 1)"
    by (simp add: scale_fit_predict632_def scale_fit_predict632_try_def stub_defs)
  from scale_fit_predict632_same_formula [OF this] show ?thesis by blast
qed

text \<open>
  C4, as it is worded, lets the two calls share the no-information rate too.  They do
  not: in the call below, which succeeds, the rate of the first \<open>point632plus_score\<close>
  is that of \<open>(y_train, y_train_pred) = ([0, 1], [0, 1])\<close>, one half, and the rate of the
  second is that of \<open>(y_test, y_test_pred) = ([0], [1])\<close>, one.
\<close>

theorem scale_fit_predict632_gamma_differs:
  "scale_fit_predict632 centre_scaler threshold_model error_rate 0 [0, 1] [2] [0, 1] [0]
     = (Some (6241 / 4125), Some 1)
   \<and> train_test_z_scores centre_scaler [0, 1] [2] = Inr ([- 1 / 2, 1 / 2], [3 / 2])
   \<and> m_predict threshold_model 0 [- 1 / 2, 1 / 2] = Inr [0, 1]
   \<and> m_predict threshold_model 0 [3 / 2] = Inr [1]
   \<and> no_info_rate [0, 1] [0, 1] = Some (1 / 2)
   \<and> no_info_rate [0] [1] = Some 1
   \<and> no_info_rate [0, 1] [0, 1] \<noteq> no_info_rate [0] [1]"
  by (simp add: scale_fit_predict632_def scale_fit_predict632_try_def stub_defs)

section \<open>Properties of \<open>check_support\<close>\<close>

text \<open>
  C10.  On a one-dimensional numpy array \<open>check_support\<close> returns \<open>None\<close>.  It returns a
  value only for an input of more than one dimension (the squeezed array) or for an
  input that is not a numpy array (the converted integer array).
\<close>

theorem check_support_1d_ndarray:
  "(np_ndim (Array a) = 1 \<longrightarrow> check_support (Array a) = None)
   \<and> (\<forall>r. check_support s = Some r \<longrightarrow>
         (1 < np_ndim s \<and> r = np_squeeze (as_array s))
       \<or> (\<not> is_ndarray s \<and> r = np_array_int (as_array s)))"
  by (simp add: check_support_def)

theorem check_support_1d_ndarray_witness:
  "check_support (Array (NdArray [3] [0, 2, 5])) = None
   \<and> check_support (Array (NdArray [1, 3] [0, 2, 5])) = Some (NdArray [3] [0, 2, 5])
   \<and> check_support (NotArray (NdArray [3] [0, 2, 5])) = Some (NdArray [3] [0, 2, 5])"
  using check_support_1d_ndarray [of "NdArray [3] [0, 2, 5]" "Array (NdArray [1, 3] [0, 2, 5])"]
        check_support_1d_ndarray [of "NdArray [3] [0, 2, 5]" "NotArray (NdArray [3] [0, 2, 5])"]
  by (simp add: np_ndim_def check_support_def np_squeeze_def np_array_int_def)

section \<open>Properties of the out-of-bag resampler\<close>

lemma lcg_draw_props:
  "a \<noteq> [] \<Longrightarrow> lcg_draw g a n = (xs, g') \<Longrightarrow> length xs = n \<and> set xs \<subseteq> set a"
proof (induction n arbitrary: g xs g')
  case 0
  then show ?case by simp
next
  case (Suc n)
  obtain ys g2 where r: "lcg_draw ((5 * g + 3) mod 16) a n = (ys, g2)"
    by (cases "lcg_draw ((5 * g + 3) mod 16) a n") auto
  from Suc.IH [OF Suc.prems(1) r] Suc.prems r show ?case
    by auto
qed

lemma valid_choice_lcg: "valid_choice lcg_rng"
  unfolding valid_choice_def lcg_rng_def
proof (intro allI impI)
  fix g :: nat and a :: "nat list" and n :: nat
  assume a: "a \<noteq> []"
  obtain xs g' where r: "lcg_draw g a n = (xs, g')"
    by (cases "lcg_draw g a n") auto
  from lcg_draw_props [OF a r] a r
  show "\<exists>xs g'. rs_choice \<lparr>rs_seed = \<lambda>s. if 0 \<le> s \<and> s < 2 ^ 32 then Inr (nat s mod 16) else Inl ValueError,
         rs_choice = \<lambda>g a n. if a = [] then Inl ValueError else Inr (lcg_draw g a n)\<rparr> g a n = Inr (xs, g')
         \<and> length xs = n \<and> set xs \<subseteq> set a"
    by simp
qed

lemma oob_splits_props:
  assumes "valid_choice rng" and "0 < n"
    and "oob_splits rng [0..<n] n k g = (pairs, err, g')"
  shows "err = None \<and> length pairs = k
         \<and> (\<forall>(train_idx, test_idx) \<in> set pairs.
               length train_idx = n \<and> (\<forall>i \<in> set train_idx. i < n)
             \<and> test_idx = {0..<n} - set train_idx)"
  using assms(3)
proof (induction k arbitrary: g pairs err g')
  case 0
  then show ?case by simp
next
  case (Suc k)
  have ne: "[0..<n] \<noteq> []" using assms(2) by simp
  from assms(1) ne obtain xs g1 where
    ch: "rs_choice rng g [0..<n] n = Inr (xs, g1)" "length xs = n" "set xs \<subseteq> set [0..<n]"
    unfolding valid_choice_def by blast
  obtain rest e2 g2 where r: "oob_splits rng [0..<n] n k g1 = (rest, e2, g2)"
    by (cases "oob_splits rng [0..<n] n k g1") auto
  from Suc.prems ch(1) r
  have eqs: "pairs = (xs, {0..<n} - set xs) # rest" "err = e2"
    by simp_all
  from Suc.IH [OF r]
  have ih: "e2 = None" "length rest = k"
    "\<forall>(train_idx, test_idx) \<in> set rest.
        length train_idx = n \<and> (\<forall>i \<in> set train_idx. i < n)
      \<and> test_idx = {0..<n} - set train_idx"
    by simp_all
  have hd: "length xs = n \<and> (\<forall>i \<in> set xs. i < n)"
    using ch(2,3) by auto
  show ?case
    unfolding eqs using ih hd by simp
qed


text \<open>
  C2.  For \<open>n \<ge> 1\<close> samples, every pair that \<open>BootstrapOutOfBag.split\<close> yields has
  a \<open>train_idx\<close> of length \<open>n\<close> with entries below \<open>n\<close>, and a \<open>test_idx\<close> that is the
  set \<open>{0..<n}\<close> without the entries of \<open>train_idx\<close>, hence disjoint from them (and
  empty when every index was drawn).  When the generator can be made, \<open>n_splits\<close> pairs
  are yielded and nothing is raised.  The generator is assumed to keep numpy's contract
  of \<open>choice\<close>.
\<close>

theorem BootstrapOutOfBag_split_partition:
  assumes "valid_choice rng" and "1 \<le> n"
    and "BootstrapOutOfBag_split rng entropy self [n, d] = (pairs, err)"
  shows "(\<forall>(train_idx, test_idx) \<in> set pairs.
            length train_idx = n \<and> (\<forall>i \<in> set train_idx. i < n)
          \<and> test_idx = {0..<n} - set train_idx
          \<and> test_idx \<inter> set train_idx = {})
       \<and> (\<forall>g0. RandomState rng entropy (random_state self) = Inr g0 \<longrightarrow>
             err = None \<and> length pairs = nat (n_splits self))"
proof (cases "RandomState rng entropy (random_state self)")
  case (Inl e)
  with assms(3) show ?thesis
    by (simp add: BootstrapOutOfBag_split_def)
next
  case (Inr rand_gen)
  obtain ps e2 g2 where
    r: "oob_splits rng [0..<n] n (nat (n_splits self)) rand_gen = (ps, e2, g2)"
    by (cases "oob_splits rng [0..<n] n (nat (n_splits self)) rand_gen") auto
  from assms(3) Inr r have eqs: "pairs = ps" "err = e2"
    by (simp_all add: BootstrapOutOfBag_split_def)
  from assms(2) have "0 < n" by simp
  from oob_splits_props [OF assms(1) this r] show ?thesis
    unfolding eqs using Inr by fastforce
qed

theorem BootstrapOutOfBag_split_partition_witness:
  "BootstrapOutOfBag_split lcg_rng 0 \<lparr>n_splits = 2, random_state = Some 7\<rparr> [3, 5]
     = ([([0, 1, 2], {}), ([2, 1, 2], {0})], None)
   \<and> length [0, 1, 2 :: nat] = 3 \<and> list_all (\<lambda>i. i < 3) [0, 1, 2 :: nat]
   \<and> {} = {0..<3} - set [0, 1, 2 :: nat]
   \<and> length [2, 1, 2 :: nat] = 3 \<and> list_all (\<lambda>i. i < 3) [2, 1, 2 :: nat]
   \<and> {0} = {0..<3} - set [2, 1, 2 :: nat]
   \<and> {0} \<inter> set [2, 1, 2 :: nat] = {}"
proof -
  have e: "BootstrapOutOfBag_split lcg_rng 0 \<lparr>n_splits = 2, random_state = Some 7\<rparr> [3, 5]
     = ([([0, 1, 2], {}), ([2, 1, 2], {0})], None)"
    by code_simp
  have n: "(1::nat) \<le> 3" by simp
  note p = BootstrapOutOfBag_split_partition [OF valid_choice_lcg n e, THEN conjunct1]
  from e p show ?thesis by simp
qed

text \<open>The same for \<open>OOBSampler.split\<close>.\<close>

lemma OOBSampler_split_partition:
  assumes "valid_choice rng" and "1 \<le> n"
    and "OOBSampler_split rng self [n, d] = (pairs, err, self')"
  shows "err = None \<and> length pairs = nat (oob_n_splits self)
       \<and> (\<forall>(train_idx, test_idx) \<in> set pairs.
            length train_idx = n \<and> (\<forall>i \<in> set train_idx. i < n)
          \<and> test_idx = {0..<n} - set train_idx)"
proof -
  obtain ps e2 g2 where
    r: "oob_splits rng [0..<n] n (nat (oob_n_splits self)) (rgen self) = (ps, e2, g2)"
    by (cases "oob_splits rng [0..<n] n (nat (oob_n_splits self)) (rgen self)") auto
  from assms(3) r have eqs: "pairs = ps" "err = e2"
    by (simp_all add: OOBSampler_split_def)
  from assms(2) have "0 < n" by simp
  from oob_splits_props [OF assms(1) this r] show ?thesis
    unfolding eqs by simp
qed



section \<open>Properties of \<open>bbc_cv\<close>\<close>

lemma bbc_cv_as_written:
  "bbc_cv rng model_selection_globals entropy G scores n_iter seed
     = (case np_shape2 scores of Inl e \<Rightarrow> Inl e | Inr sh \<Rightarrow> Inl NameError, G)"
  by (cases "np_shape2 scores") (auto simp: bbc_cv_def model_selection_globals_def)

text \<open>
  C1.  The claim is that \<open>bbc_cv\<close> returns the mean, over the iterations, of the loss of
  the configuration selected on the resampled rows.  The code does not: in the module
  as written every call raises (the shape of \<open>scores\<close> is not a pair, or the name
  \<open>n_splits\<close> is not bound), before any resampling; for the matrix with rows \<open>[2, 9]\<close>
  and \<open>[1, 8]\<close> it raises \<open>NameError\<close>.  Nor is a loss what the loop adds up: the value
  of \<open>np.argmin(scores[idxs, :])\<close> is a position in the flattened matrix of resampled
  rows, 0 for the rows \<open>[1, 0]\<close> and 2 for the rows \<open>[0, 1]\<close> of that matrix, whose first
  column is lower on every row and has loss \<open>3 / 2\<close>.
\<close>

theorem bbc_cv_not_mean_loss:
  "(\<exists>e. bbc_cv rng model_selection_globals entropy G scores n_iter seed = (Inl e, G))
   \<and> bbc_cv rng model_selection_globals entropy G [[2, 9], [1, 8]] 1 (Some 0)
       = (Inl NameError, G)
   \<and> and_then (take_rows [[2, 9], [1, 8]] [1, 0]) np_argmin = Inr 0
   \<and> and_then (take_rows [[2, 9], [1, 8]] [0, 1]) np_argmin = Inr 2
   \<and> column_loss [[2, 9], [1, 8]] 0 = Some (3 / 2)"
proof (intro conjI)
  show "\<exists>e. bbc_cv rng model_selection_globals entropy G scores n_iter seed = (Inl e, G)"
    by (cases "np_shape2 scores") (auto simp: bbc_cv_as_written)
  show "bbc_cv rng model_selection_globals entropy G [[2, 9], [1, 8]] 1 (Some 0)
          = (Inl NameError, G)"
    by (simp add: bbc_cv_as_written np_shape2_def)
  show "and_then (take_rows [[2, 9], [1, 8]] [1, 0]) np_argmin = Inr 0"
    by (simp add: and_then_def take_rows_def np_argmin_def)
  show "and_then (take_rows [[2, 9], [1, 8]] [0, 1]) np_argmin = Inr 2"
    by (simp add: and_then_def take_rows_def np_argmin_def)
  show "column_loss [[2, 9], [1, 8]] 0 = Some (3 / 2)"
    by (simp add: column_loss_def np_mean_def)
qed

section \<open>Reproducibility of the bootstrap draws\<close>

text \<open>
  Without a seed the splits do depend on the state that the operating system supplies:
  the independence below is a property of the seeded case.
\<close>

lemma BootstrapOutOfBag_split_unseeded:
  "BootstrapOutOfBag_split lcg_rng 0 \<lparr>n_splits = 1, random_state = None\<rparr> [3, 5]
     = ([([0, 2, 1], {})], None)
   \<and> BootstrapOutOfBag_split lcg_rng 1 \<lparr>n_splits = 1, random_state = None\<rparr> [3, 5]
     = ([([2, 2, 1], {0})], None)"
  by code_simp


section \<open>Properties of \<open>nested_cross_validation_smac\<close>\<close>

lemma path_case_file_7_x:
  "path_case_file (Some ''tmp'') (Some 7) ''x'' = ''tmp/experiment_7_x''"
  by (simp add: path_case_file_def os_path_join_def str_seed_def str_int_def str_nat.simps)

text \<open>
  C9.  When the file of preliminary results for the seed and the experiment exists, the
  call returns what \<open>read_prelim_result\<close> reads from it, as it is, runs no fold and
  leaves the file system as it was.  A call that runs a fold found no such file.
\<close>

theorem nested_cross_validation_smac_resume:
  "(isfile env fs (path_case_file path_tmp_results seed experiment_id) \<longrightarrow>
      nested_cross_validation_smac env fs X y experiment_id cv verbose seed
          path_tmp_results elapsed
        = \<lparr> returned = read_prelim_result env fs
                          (path_case_file path_tmp_results seed experiment_id),
            folds_run = 0, files_after = fs \<rparr>)
   \<and> (0 < folds_run (nested_cross_validation_smac env fs X y experiment_id cv verbose seed
                        path_tmp_results elapsed) \<longrightarrow>
        \<not> isfile env fs (path_case_file path_tmp_results seed experiment_id))"
  by (auto simp: nested_cross_validation_smac_def Let_def)

theorem nested_cross_validation_smac_resume_witness:
  "nested_cross_validation_smac stub_env [(''tmp/experiment_7_x'', stored_record)]
       [1, 2] [0, 1] ''x'' 2 1 (Some 7) (Some ''tmp'') 3
     = \<lparr> returned = Inr stored_record, folds_run = 0,
         files_after = [(''tmp/experiment_7_x'', stored_record)] \<rparr>
   \<and> \<not> isfile stub_env [] (path_case_file (Some ''tmp'') (Some 7) ''x'')"
proof -
  have run: "folds_run (nested_cross_validation_smac stub_env [] [1, 2] [0, 1] ''x'' 2 1
               (Some 7) (Some ''tmp'') 3) = 2"
    by code_simp
  have ex: "isfile stub_env [(''tmp/experiment_7_x'', stored_record)]
              (path_case_file (Some ''tmp'') (Some 7) ''x'')"
    by (simp add: path_case_file_7_x stub_env_def)
  have rd: "read_prelim_result stub_env [(''tmp/experiment_7_x'', stored_record)]
              (path_case_file (Some ''tmp'') (Some 7) ''x'') = Inr stored_record"
    by (simp add: path_case_file_7_x stub_env_def)
  from nested_cross_validation_smac_resume
         [of stub_env "[(''tmp/experiment_7_x'', stored_record)]" "Some ''tmp''" "Some 7" "''x''"
             "[1, 2]" "[0, 1]" 2 1 3]
       nested_cross_validation_smac_resume
         [of stub_env "[]" "Some ''tmp''" "Some 7" "''x''" "[1, 2]" "[0, 1]" 2 1 3]
       ex rd run
  show ?thesis by simp
qed

end
